theory Spec2Isabelle
  imports Complex_Main "HOL-Library.Multiset" "HOL-Library.Word"
begin

unbundle bit_operations_syntax


section \<open>JavaScript values the scripts rely on\<close>

text \<open>
  A thrown JavaScript error: its message, the \<open>code\<close> property that Node's file
  system errors carry (\<open>ENOENT\<close>, ...) and the \<open>cause\<close> that
  \<open>new Error(msg, { cause })\<close> records.
\<close>

datatype error = Error (message: string) (code: "string option") (cause: "error option")

text \<open>
  \<open>String(n)\<close> for a bigint \<open>n\<close>: the decimal digits, most significant first,
  with a leading minus sign for a negative value.
\<close>

definition digit_char :: "nat \<Rightarrow> char" where
  "digit_char d = char_of (48 + d)"

fun digits_of_nat :: "nat \<Rightarrow> string" where
  "digits_of_nat n =
     (if n < 10 then [digit_char n]
      else digits_of_nat (n div 10) @ [digit_char (n mod 10)])"

declare digits_of_nat.simps [simp del]

definition BigInt_toString :: "int \<Rightarrow> string" where
  "BigInt_toString i =
     (if i < 0 then CHR ''-'' # digits_of_nat (nat (- i)) else digits_of_nat (nat i))"

text \<open>
  \<open>BigInt(s)\<close> for a string \<open>s\<close> (ECMAScript StringToBigInt): white space is
  trimmed, the empty string is zero, \<open>0x\<close>, \<open>0o\<close> and \<open>0b\<close> introduce
  unsigned hexadecimal, octal and binary digits, anything else is an optional sign and
  decimal digits. A string of any other form throws a SyntaxError.
\<close>

definition is_ws :: "char \<Rightarrow> bool" where
  "is_ws c = (c \<in> set [CHR '' '', CHR 0x09, CHR 0x0A, CHR 0x0B, CHR 0x0C, CHR 0x0D])"

definition trim :: "string \<Rightarrow> string" where
  "trim s = rev (dropWhile is_ws (rev (dropWhile is_ws s)))"

definition digit_value :: "char \<Rightarrow> nat option" where
  "digit_value c =
     (let n = (of_char c :: nat) in
      if 48 \<le> n \<and> n \<le> 57 then Some (n - 48)
      else if 97 \<le> n \<and> n \<le> 102 then Some (n - 87)
      else if 65 \<le> n \<and> n \<le> 70 then Some (n - 55)
      else None)"

fun parse_digits :: "nat \<Rightarrow> string \<Rightarrow> nat \<Rightarrow> nat option" where
  "parse_digits b [] acc = Some acc"
| "parse_digits b (c # cs) acc =
     (case digit_value c of
        None \<Rightarrow> None
      | Some d \<Rightarrow> if d < b then parse_digits b cs (acc * b + d) else None)"

definition parse_number :: "nat \<Rightarrow> string \<Rightarrow> nat option" where
  "parse_number b cs = (if cs = [] then None else parse_digits b cs 0)"

definition StringToBigInt :: "string \<Rightarrow> int option" where
  "StringToBigInt s =
     (case trim s of
        [] \<Rightarrow> Some 0
      | [c] \<Rightarrow> map_option int (parse_number 10 [c])
      | c # d # ds \<Rightarrow>
          if c = CHR ''0'' \<and> (d = CHR ''x'' \<or> d = CHR ''X'') then map_option int (parse_number 16 ds)
          else if c = CHR ''0'' \<and> (d = CHR ''o'' \<or> d = CHR ''O'') then map_option int (parse_number 8 ds)
          else if c = CHR ''0'' \<and> (d = CHR ''b'' \<or> d = CHR ''B'') then map_option int (parse_number 2 ds)
          else if c = CHR ''-'' then map_option (\<lambda>n. - int n) (parse_number 10 (d # ds))
          else if c = CHR ''+'' then map_option int (parse_number 10 (d # ds))
          else map_option int (parse_number 10 (c # d # ds)))"

definition BigInt_of_string :: "string \<Rightarrow> error + int" where
  "BigInt_of_string s =
     (case StringToBigInt s of
        None \<Rightarrow> Inl (Error (''SyntaxError: Cannot convert '' @ s @ '' to a BigInt'') None None)
      | Some n \<Rightarrow> Inr n)"

section \<open>JSON documents of the checkpoint files\<close>

text \<open>
  The checkpoint files hold one JSON object whose members are strings (the decimal text
  of a bigint) or integers. \<open>JSON.stringify\<close> and \<open>dagJSON.encode\<close> print such an
  object without white space, and on an object of this shape they print the same bytes;
  \<open>JSON.parse\<close> and \<open>dagJSON.decode\<close> read it back. The model covers this fragment:
  objects whose values are strings or integer numbers, with the two-character escapes
  of the quote, the backslash, the slash and of b, f, n, r and t. Any other document
  (arrays, nested objects, fractions, exponents, literals, u escapes) is reported as
  unreadable, which is what the scripts do with a file they cannot use.
\<close>

datatype jvalue = JString string | JNumber int

type_synonym jobject = "(string \<times> jvalue) list"

fun escape :: "string \<Rightarrow> string" where
  "escape [] = []"
| "escape (c # cs) =
     (if c = CHR 0x22 \<or> c = CHR 0x5C then CHR 0x5C # c # escape cs else c # escape cs)"

definition quote :: "string \<Rightarrow> string" where
  "quote s = CHR 0x22 # escape s @ [CHR 0x22]"

fun stringify_value :: "jvalue \<Rightarrow> string" where
  "stringify_value (JString s) = quote s"
| "stringify_value (JNumber n) = BigInt_toString n"

definition stringify_member :: "string \<times> jvalue \<Rightarrow> string" where
  "stringify_member m = quote (fst m) @ '':'' @ stringify_value (snd m)"

fun stringify_members :: "jobject \<Rightarrow> string" where
  "stringify_members [] = ''}''"
| "stringify_members [m] = stringify_member m @ ''}''"
| "stringify_members (m # n # ms) = stringify_member m @ '','' @ stringify_members (n # ms)"

definition JSON_stringify :: "jobject \<Rightarrow> string" where
  "JSON_stringify obj = CHR ''{'' # stringify_members obj"

definition json_ws :: "char \<Rightarrow> bool" where
  "json_ws c = (c \<in> set [CHR '' '', CHR 0x09, CHR 0x0A, CHR 0x0D])"

definition skip_ws :: "string \<Rightarrow> string" where
  "skip_ws cs = dropWhile json_ws cs"

definition unescape :: "char \<Rightarrow> char option" where
  "unescape e =
     (if e = CHR 0x22 \<or> e = CHR 0x5C \<or> e = CHR ''/'' then Some e
      else if e = CHR ''b'' then Some (CHR 0x08)
      else if e = CHR ''f'' then Some (CHR 0x0C)
      else if e = CHR ''n'' then Some (CHR 0x0A)
      else if e = CHR ''r'' then Some (CHR 0x0D)
      else if e = CHR ''t'' then Some (CHR 0x09)
      else None)"

text \<open>The characters of a string literal after its opening quote, and what follows it.\<close>

fun parse_chars :: "string \<Rightarrow> (string \<times> string) option" where
  "parse_chars [] = None"
| "parse_chars [c] = (if c = CHR 0x22 then Some ([], []) else None)"
| "parse_chars (c # e # r) =
     (if c = CHR 0x22 then Some ([], e # r)
      else if c = CHR 0x5C then
        (case unescape e of
           None \<Rightarrow> None
         | Some x \<Rightarrow> map_option (\<lambda>(s, t). (x # s, t)) (parse_chars r))
      else if (of_char c :: nat) < 32 then None
      else map_option (\<lambda>(s, t). (c # s, t)) (parse_chars (e # r)))"

definition is_digit :: "char \<Rightarrow> bool" where
  "is_digit c = (48 \<le> (of_char c :: nat) \<and> (of_char c :: nat) \<le> 57)"

text \<open>An integer literal: an optional minus sign and digits with no leading zero.\<close>

definition parse_int :: "string \<Rightarrow> (int \<times> string) option" where
  "parse_int cs =
     (let neg = (cs \<noteq> [] \<and> hd cs = CHR ''-'');
          r = (if neg then tl cs else cs);
          ds = takeWhile is_digit r;
          rest = dropWhile is_digit r
      in if ds = [] \<or> (1 < length ds \<and> hd ds = CHR ''0'') then None
         else if rest \<noteq> [] \<and> hd rest \<in> set [CHR ''.'', CHR ''e'', CHR ''E''] then None
         else map_option (\<lambda>n. (if neg then - int n else int n, rest)) (parse_digits 10 ds 0))"

definition parse_value :: "string \<Rightarrow> (jvalue \<times> string) option" where
  "parse_value cs =
     (case cs of
        [] \<Rightarrow> None
      | c # r \<Rightarrow>
          if c = CHR 0x22 then map_option (\<lambda>(s, t). (JString s, t)) (parse_chars r)
          else map_option (\<lambda>(n, t). (JNumber n, t)) (parse_int cs))"

text \<open>One member \<open>"key": value\<close>, read at its opening quote.\<close>

definition parse_member :: "string \<Rightarrow> ((string \<times> jvalue) \<times> string) option" where
  "parse_member cs =
     (case cs of
        [] \<Rightarrow> None
      | c # r \<Rightarrow>
          if c \<noteq> CHR 0x22 then None
          else (case parse_chars r of
                  None \<Rightarrow> None
                | Some (k, r1) \<Rightarrow>
                    (case skip_ws r1 of
                       [] \<Rightarrow> None
                     | d # r2 \<Rightarrow>
                         if d \<noteq> CHR '':'' then None
                         else map_option (\<lambda>(v, t). ((k, v), t)) (parse_value (skip_ws r2)))))"

text \<open>The members of an object after its opening brace, up to the closing brace.\<close>

function parse_members :: "string \<Rightarrow> (jobject \<times> string) option" where
  "parse_members cs =
     (case parse_member (skip_ws cs) of
        None \<Rightarrow> None
      | Some (m, r) \<Rightarrow>
          (case skip_ws r of
             [] \<Rightarrow> None
           | c # r' \<Rightarrow>
               if c = CHR '','' then map_option (\<lambda>(ms, t). (m # ms, t)) (parse_members r')
               else if c = CHR ''}'' then Some ([m], r')
               else None))"
  by pat_completeness auto
termination
proof (relation "measure length", goal_cases)
  case 1
  show ?case by simp
next
  case (2 cs x2 m r c r')
  have chars: "length t < length xs" if "parse_chars xs = Some (s, t)" for xs s t
    using that
    by (induction xs arbitrary: s t rule: parse_chars.induct)
       (fastforce split: if_splits option.splits)+
  have ws: "length (skip_ws xs) \<le> length xs" for xs
    by (simp add: skip_ws_def length_dropWhile_le)
  have ints: "length t \<le> length xs" if "parse_int xs = Some (n, t)" for xs n t
  proof -
    have "t = dropWhile is_digit xs \<or> t = dropWhile is_digit (tl xs)"
      using that by (auto simp: parse_int_def Let_def split: if_splits)
    moreover have "length (dropWhile is_digit xs) \<le> length xs"
      by (rule length_dropWhile_le)
    moreover have "length (dropWhile is_digit (tl xs)) \<le> length (tl xs)"
      by (rule length_dropWhile_le)
    ultimately show ?thesis by auto
  qed
  have val: "length t \<le> length xs" if "parse_value xs = Some (v, t)" for xs v t
  proof (cases xs)
    case Nil
    with that show ?thesis by (simp add: parse_value_def)
  next
    case (Cons c r)
    show ?thesis
    proof (cases "c = CHR 0x22")
      case True
      with that Cons obtain s where "parse_chars r = Some (s, t)"
        by (auto simp: parse_value_def)
      from chars[OF this] Cons show ?thesis by simp
    next
      case False
      with that Cons obtain n where "parse_int xs = Some (n, t)"
        by (auto simp: parse_value_def)
      from ints[OF this] show ?thesis .
    qed
  qed
  have mem: "length t < length xs" if "parse_member xs = Some (kv, t)" for xs kv t
  proof -
    from that obtain r k r1 d r2 v where xs: "xs = CHR 0x22 # r"
      and k: "parse_chars r = Some (k, r1)"
      and d: "skip_ws r1 = d # r2" and v: "parse_value (skip_ws r2) = Some (v, t)"
      by (auto simp: parse_member_def split: list.splits if_splits option.splits)
    have "length t \<le> length (skip_ws r2)" using val[OF v] .
    also have "\<dots> \<le> length r2" by (rule ws)
    also have "\<dots> < length (skip_ws r1)" by (simp add: d)
    also have "\<dots> \<le> length r1" by (rule ws)
    also have "\<dots> < length r" using chars[OF k] .
    finally show ?thesis by (simp add: xs)
  qed
  from 2 have "parse_member (skip_ws cs) = Some (m, r)" by simp
  from mem[OF this] have "length r < length (skip_ws cs)" .
  moreover have "length r' < length (skip_ws r)" using 2 by simp
  moreover note ws[of r] ws[of cs]
  ultimately show ?case by simp
qed

declare parse_members.simps [simp del]

definition JSON_parse :: "string \<Rightarrow> error + jobject" where
  "JSON_parse s =
     (case skip_ws s of
        [] \<Rightarrow> Inl (Error ''SyntaxError: Unexpected end of JSON input'' None None)
      | c # r \<Rightarrow>
          if c \<noteq> CHR ''{'' then Inl (Error ''SyntaxError: Unexpected token'' None None)
          else (case skip_ws r of
                  [] \<Rightarrow> Inl (Error ''SyntaxError: Unexpected end of JSON input'' None None)
                | d # r' \<Rightarrow>
                    if d = CHR ''}'' then
                      (if skip_ws r' = [] then Inr []
                       else Inl (Error ''SyntaxError: Unexpected token'' None None))
                    else (case parse_members r of
                            None \<Rightarrow> Inl (Error ''SyntaxError: Unexpected token'' None None)
                          | Some (ms, t) \<Rightarrow>
                              if skip_ws t = [] then Inr ms
                              else Inl (Error ''SyntaxError: Unexpected token'' None None))))"

text \<open>
  The strings that \<open>JSON.stringify\<close> prints as they are, apart from the quote and the
  backslash: those without control characters. Every decimal text is one.
\<close>

definition printable :: "string \<Rightarrow> bool" where
  "printable s = (\<forall>c \<in> set s. 32 \<le> (of_char c :: nat))"

definition printable_value :: "jvalue \<Rightarrow> bool" where
  "printable_value v = (case v of JString s \<Rightarrow> printable s | JNumber n \<Rightarrow> True)"

definition printable_object :: "jobject \<Rightarrow> bool" where
  "printable_object obj = list_all (\<lambda>m. printable (fst m) \<and> printable_value (snd m)) obj"

text \<open>
  Reading a property of a parsed object: the last member of that name, \<open>None\<close> for
  \<open>undefined\<close>. \<open>BigInt(v)\<close> throws a TypeError on \<open>undefined\<close>, converts a
  string as above and takes an integer number as it is.
\<close>

definition property :: "jobject \<Rightarrow> string \<Rightarrow> jvalue option" where
  "property obj k = map_of (rev obj) k"

definition BigInt :: "jvalue option \<Rightarrow> error + int" where
  "BigInt v =
     (case v of
        None \<Rightarrow> Inl (Error ''TypeError: Cannot convert undefined to a BigInt'' None None)
      | Some (JString s) \<Rightarrow> BigInt_of_string s
      | Some (JNumber n) \<Rightarrow> Inr n)"

section \<open>The file system and the checkpoint store (lib/state.mjs)\<close>

text \<open>
  A file system is what \<open>fs.promises.readFile\<close> yields for each path: the bytes of the
  file, or the error it throws (\<open>ENOENT\<close> when there is no such file).
  \<open>fs.promises.writeFile\<close> replaces the content of one path.
\<close>

type_synonym path = string

type_synonym filesystem = "path \<Rightarrow> error + string"

definition ENOENT :: error where
  "ENOENT = Error ''ENOENT: no such file or directory'' (Some ''ENOENT'') None"

definition readFile :: "filesystem \<Rightarrow> path \<Rightarrow> error + string" where
  "readFile fs p = fs p"

definition writeFile :: "path \<Rightarrow> string \<Rightarrow> filesystem \<Rightarrow> filesystem" where
  "writeFile p data fs = fs(p := Inr data)"

text \<open>
  \<open>load\<close> of lib/state.mjs: the decoded file, or \<open>None\<close> (JavaScript's
  \<open>undefined\<close>) when reading or decoding threw an error whose code is \<open>ENOENT\<close>;
  any other error is thrown again.
\<close>

definition State_load :: "(string \<Rightarrow> error + 's) \<Rightarrow> path \<Rightarrow> filesystem \<Rightarrow> error + 's option" where
  "State_load decode p fs =
     (case (case readFile fs p of Inl err \<Rightarrow> Inl err | Inr data \<Rightarrow> decode data) of
        Inr s \<Rightarrow> Inr (Some s)
      | Inl err \<Rightarrow> if code err \<noteq> Some ''ENOENT'' then Inl err else Inr None)"

definition State_store :: "('s \<Rightarrow> string) \<Rightarrow> path \<Rightarrow> 's \<Rightarrow> filesystem \<Rightarrow> filesystem" where
  "State_store encode p state fs = writeFile p (encode state) fs"

subsection \<open>The cursor-only state (lib/currentid-state.mjs)\<close>

record CurrentIDState =
  currentID :: int

definition CurrentIDState_decode :: "string \<Rightarrow> error + CurrentIDState" where
  "CurrentIDState_decode data =
     (case JSON_parse data of
        Inl err \<Rightarrow> Inl err
      | Inr raw \<Rightarrow>
          (case BigInt (property raw ''currentID'') of
             Inl err \<Rightarrow> Inl err
           | Inr n \<Rightarrow> Inr \<lparr>currentID = n\<rparr>))"

definition CurrentIDState_encode :: "CurrentIDState \<Rightarrow> string" where
  "CurrentIDState_encode state =
     JSON_stringify [(''currentID'', JString (BigInt_toString (currentID state)))]"

definition CurrentIDState_init :: CurrentIDState where
  "CurrentIDState_init = \<lparr>currentID = 0\<rparr>"

section \<open>The denylist filter (lib/denylist.mjs)\<close>

subsection \<open>SHA-256 and hexadecimal text\<close>

text \<open>
  \<open>sha256.encode\<close> of multiformats is SHA-256 (FIPS 180-4) over the bytes of the
  message; \<open>Buffer.from(s)\<close> yields the UTF-8 bytes of a string, which a string of the
  model already is; \<open>Buffer.toString('hex')\<close> prints two lower-case hexadecimal digits
  for each byte.
\<close>

type_synonym byte = "8 word"

definition rotr :: "nat \<Rightarrow> 32 word \<Rightarrow> 32 word" where
  "rotr n x = (drop_bit n x) OR (push_bit (32 - n) x)"

definition Ch :: "32 word \<Rightarrow> 32 word \<Rightarrow> 32 word \<Rightarrow> 32 word" where
  "Ch x y z = (x AND y) XOR (NOT x AND z)"

definition Maj :: "32 word \<Rightarrow> 32 word \<Rightarrow> 32 word \<Rightarrow> 32 word" where
  "Maj x y z = (x AND y) XOR (x AND z) XOR (y AND z)"

definition Sigma0 :: "32 word \<Rightarrow> 32 word" where
  "Sigma0 x = rotr 2 x XOR rotr 13 x XOR rotr 22 x"

definition Sigma1 :: "32 word \<Rightarrow> 32 word" where
  "Sigma1 x = rotr 6 x XOR rotr 11 x XOR rotr 25 x"

definition sigma0 :: "32 word \<Rightarrow> 32 word" where
  "sigma0 x = rotr 7 x XOR rotr 18 x XOR drop_bit 3 x"

definition sigma1 :: "32 word \<Rightarrow> 32 word" where
  "sigma1 x = rotr 17 x XOR rotr 19 x XOR drop_bit 10 x"

definition K256 :: "32 word list" where
  "K256 =
    [0x428A2F98, 0x71374491, 0xB5C0FBCF, 0xE9B5DBA5, 0x3956C25B, 0x59F111F1, 0x923F82A4, 0xAB1C5ED5,
     0xD807AA98, 0x12835B01, 0x243185BE, 0x550C7DC3, 0x72BE5D74, 0x80DEB1FE, 0x9BDC06A7, 0xC19BF174,
     0xE49B69C1, 0xEFBE4786, 0x0FC19DC6, 0x240CA1CC, 0x2DE92C6F, 0x4A7484AA, 0x5CB0A9DC, 0x76F988DA,
     0x983E5152, 0xA831C66D, 0xB00327C8, 0xBF597FC7, 0xC6E00BF3, 0xD5A79147, 0x06CA6351, 0x14292967,
     0x27B70A85, 0x2E1B2138, 0x4D2C6DFC, 0x53380D13, 0x650A7354, 0x766A0ABB, 0x81C2C92E, 0x92722C85,
     0xA2BFE8A1, 0xA81A664B, 0xC24B8B70, 0xC76C51A3, 0xD192E819, 0xD6990624, 0xF40E3585, 0x106AA070,
     0x19A4C116, 0x1E376C08, 0x2748774C, 0x34B0BCB5, 0x391C0CB3, 0x4ED8AA4A, 0x5B9CCA4F, 0x682E6FF3,
     0x748F82EE, 0x78A5636F, 0x84C87814, 0x8CC70208, 0x90BEFFFA, 0xA4506CEB, 0xBEF9A3F7, 0xC67178F2]"

definition H256 :: "32 word list" where
  "H256 =
    [0x6A09E667, 0xBB67AE85, 0x3C6EF372, 0xA54FF53A, 0x510E527F, 0x9B05688C, 0x1F83D9AB, 0x5BE0CD19]"

text \<open>The \<open>k\<close> big-endian bytes of a number.\<close>

fun be_bytes :: "nat \<Rightarrow> nat \<Rightarrow> byte list" where
  "be_bytes 0 v = []"
| "be_bytes (Suc k) v = be_bytes k (v div 256) @ [of_nat (v mod 256)]"

definition word_of_bytes :: "byte list \<Rightarrow> 32 word" where
  "word_of_bytes bs = foldl (\<lambda>acc b. push_bit 8 acc OR ucast b) 0 bs"

text \<open>
  Padding: the byte \<open>0x80\<close>, zero bytes up to 56 modulo 64, and the length of the
  message in bits as eight big-endian bytes.
\<close>

definition pad :: "byte list \<Rightarrow> byte list" where
  "pad msg =
     msg @ [0x80] @ replicate ((119 - length msg mod 64) mod 64) 0 @ be_bytes 8 (8 * length msg)"

text \<open>The first \<open>n\<close> consecutive pieces of \<open>k\<close> elements.\<close>

fun chunks :: "nat \<Rightarrow> nat \<Rightarrow> 'a list \<Rightarrow> 'a list list" where
  "chunks 0 k xs = []"
| "chunks (Suc n) k xs = take k xs # chunks n k (drop k xs)"

definition words_of_block :: "byte list \<Rightarrow> 32 word list" where
  "words_of_block block = map word_of_bytes (chunks 16 4 block)"

text \<open>The message schedule: \<open>n\<close> more words after the ones given.\<close>

fun schedule :: "nat \<Rightarrow> 32 word list \<Rightarrow> 32 word list" where
  "schedule 0 w = w"
| "schedule (Suc n) w =
     schedule n (w @ [sigma1 (w ! (length w - 2)) + w ! (length w - 7)
                       + sigma0 (w ! (length w - 15)) + w ! (length w - 16)])"

fun round256 :: "32 word list \<Rightarrow> 32 word \<times> 32 word \<Rightarrow> 32 word list" where
  "round256 [a, b, c, d, e, f, g, h] (k, w) =
     (let t1 = h + Sigma1 e + Ch e f g + k + w;
          t2 = Sigma0 a + Maj a b c
      in [t1 + t2, a, b, c, d + t1, e, f, g])"
| "round256 v kw = v"

definition compress :: "32 word list \<Rightarrow> byte list \<Rightarrow> 32 word list" where
  "compress hs block =
     map2 (+) hs (foldl round256 hs (zip K256 (schedule 48 (words_of_block block))))"

definition sha256 :: "byte list \<Rightarrow> byte list" where
  "sha256 msg =
     concat (map (\<lambda>w. be_bytes 4 (unat w))
       (foldl compress H256 (chunks (length (pad msg) div 64) 64 (pad msg))))"

definition hex_digit :: "nat \<Rightarrow> char" where
  "hex_digit n = ''0123456789abcdef'' ! n"

definition hex :: "byte list \<Rightarrow> string" where
  "hex bs = concat (map (\<lambda>b. [hex_digit (unat b div 16), hex_digit (unat b mod 16)]) bs)"

definition bytes_of_string :: "string \<Rightarrow> byte list" where
  "bytes_of_string s = map (\<lambda>c. of_nat (of_char c)) s"

subsection \<open>isDenyListed\<close>

text \<open>
  The denylist is the set of anchors read from the denylist file; \<open>isDenyListed\<close>
  hashes the CID followed by a slash and looks the hexadecimal text of the hash up.
\<close>

definition isDenyListed :: "string set \<Rightarrow> string \<Rightarrow> bool" where
  "isDenyListed denylist cid =
     (let hash = sha256 (bytes_of_string (cid @ ''/''));
          exists = (hex hash \<in> denylist)
      in exists)"

text \<open>The anchor hash of an identifier, as the glossary of the specification names it.\<close>

definition anchor :: "string \<Rightarrow> string" where
  "anchor cid = hex (sha256 (bytes_of_string (cid @ ''/'')))"

text \<open>Two identifiers of one length that differ in exactly one character.\<close>

definition differ_by_one :: "string \<Rightarrow> string \<Rightarrow> bool" where
  "differ_by_one a b =
     (length a = length b \<and> length (filter (\<lambda>p. fst p \<noteq> snd p) (zip a b)) = 1)"

section \<open>The upload database\<close>

text \<open>
  A row of the \<open>upload\<close> table, with the columns the scripts select. The PostgreSQL
  client is outside the repository: a client is what each of the three queries yields,
  rows or the error the query throws.
\<close>

record upload =
  upload_id :: int
  user_id :: int
  source_cid :: string
  content_cid :: string

record pg_client =
  select_min_max_id :: "error + (int \<times> int) option"
  select_uploads_after :: "int \<Rightarrow> int \<Rightarrow> error + upload list"
  select_sum_size_actual :: "string list \<Rightarrow> error + int option"

definition PAGE_SIZE :: int where
  "PAGE_SIZE = 10000"

text \<open>
  \<open>SELECT MIN(id), MAX(id) FROM upload\<close> yields one row, of two nulls when the table
  is empty, and \<open>BigInt(null)\<close> throws a TypeError.
\<close>

definition fetchUploadIdRange :: "pg_client \<Rightarrow> error + (int \<times> int)" where
  "fetchUploadIdRange db =
     (case select_min_max_id db of
        Inl err \<Rightarrow> Inl err
      | Inr None \<Rightarrow> Inl (Error ''TypeError: Cannot convert null to a BigInt'' None None)
      | Inr (Some r) \<Rightarrow> Inr r)"

definition fetchUploadsAfter :: "pg_client \<Rightarrow> int \<Rightarrow> int \<Rightarrow> error + upload list" where
  "fetchUploadsAfter db i limit = select_uploads_after db i limit"

text \<open>
  \<open>fetchTotalDagSize\<close> of count-dag-size.mjs converts the sum with \<open>BigInt\<close>, which
  throws on the null that \<open>SUM\<close> yields when no row matches.
\<close>

definition fetchTotalDagSize :: "pg_client \<Rightarrow> string list \<Rightarrow> error + int" where
  "fetchTotalDagSize db cids =
     (case select_sum_size_actual db cids of
        Inl err \<Rightarrow> Inl err
      | Inr None \<Rightarrow> Inl (Error ''TypeError: Cannot convert null to a BigInt'' None None)
      | Inr (Some s) \<Rightarrow> Inr s)"

subsection \<open>The queries over tables\<close>

text \<open>
  What the three SQL statements compute over the rows of \<open>upload\<close> and of
  \<open>cargo.dags\<close> (CID and nullable \<open>size_actual\<close>):
  \<open>WHERE id >= $1 ORDER BY id ASC LIMIT $2\<close>,
  \<open>SUM(size_actual) ... WHERE cid_v1 IN (...)\<close> and \<open>MIN(id), MAX(id)\<close>.
\<close>

definition sql_uploads_after :: "upload list \<Rightarrow> int \<Rightarrow> int \<Rightarrow> upload list" where
  "sql_uploads_after rows i limit =
     take (nat limit) (sort_key upload_id (filter (\<lambda>u. i \<le> upload_id u) rows))"

definition sql_sum_size_actual :: "(string \<times> int option) list \<Rightarrow> string list \<Rightarrow> int option" where
  "sql_sum_size_actual dags cids =
     (let sizes = List.map_filter (\<lambda>r. if fst r \<in> set cids then snd r else None) dags
      in if sizes = [] then None else Some (sum_list sizes))"

definition sql_min_max_id :: "upload list \<Rightarrow> (int \<times> int) option" where
  "sql_min_max_id rows =
     (if rows = [] then None
      else Some (fold min (map upload_id rows) (upload_id (hd rows)),
                 fold max (map upload_id rows) (upload_id (hd rows))))"

definition pg_tables :: "upload list \<Rightarrow> (string \<times> int option) list \<Rightarrow> pg_client" where
  "pg_tables rows dags =
     \<lparr>select_min_max_id = Inr (sql_min_max_id rows),
      select_uploads_after = (\<lambda>i limit. Inr (sql_uploads_after rows i limit)),
      select_sum_size_actual = (\<lambda>cids. Inr (sql_sum_size_actual dags cids))\<rparr>"

section \<open>The checkpointed scan of count-dag-size.mjs\<close>

text \<open>
  The state of the scan: the cursor, the total size (a bigint) and the number of DAGs
  counted (a JavaScript number, an integer below \<open>2\<^sup>5\<^sup>3\<close> in every run).
\<close>

record State = CurrentIDState +
  state_size :: int
  state_count :: int

definition statePath :: path where
  "statePath = ''./out/count-dag-size.state.json''"

text \<open>
  \<open>loadState\<close>: the state of the file, the zero state when reading threw \<open>ENOENT\<close>,
  and any other error thrown again. A file whose \<open>count\<close> is not a number is
  unreadable in the model.
\<close>

definition parseState :: "string \<Rightarrow> error + State" where
  "parseState raw =
     (case JSON_parse raw of
        Inl err \<Rightarrow> Inl err
      | Inr data \<Rightarrow>
          (case BigInt (property data ''currentID'') of
             Inl err \<Rightarrow> Inl err
           | Inr c \<Rightarrow>
               (case BigInt (property data ''size'') of
                  Inl err \<Rightarrow> Inl err
                | Inr s \<Rightarrow>
                    (case property data ''count'' of
                       Some (JNumber n) \<Rightarrow> Inr \<lparr>currentID = c, state_size = s, state_count = n\<rparr>
                     | _ \<Rightarrow> Inl (Error ''count is not a number'' None None)))))"

definition loadState :: "filesystem \<Rightarrow> error + State" where
  "loadState fs =
     (case (case readFile fs statePath of Inl err \<Rightarrow> Inl err | Inr raw \<Rightarrow> parseState raw) of
        Inr state \<Rightarrow> Inr state
      | Inl err \<Rightarrow>
          if code err \<noteq> Some ''ENOENT'' then Inl err
          else Inr \<lparr>currentID = 0, state_size = 0, state_count = 0\<rparr>)"

definition saveState :: "State \<Rightarrow> filesystem \<Rightarrow> filesystem" where
  "saveState state fs =
     (let data = [(''currentID'', JString (BigInt_toString (currentID state))),
                  (''size'', JString (BigInt_toString (state_size state))),
                  (''count'', JNumber (state_count state))]
      in writeFile statePath (JSON_stringify data) fs)"

text \<open>
  The world a run acts on: the files, and the pages handled so far, each with the cursor
  it was fetched at (a record of what the run did, not a variable of the script).
\<close>

record world =
  files :: filesystem
  pages :: "(int \<times> upload list) list"

text \<open>
  The body of the loop up to the advance of the cursor: the page is fetched at the
  cursor, the DAGs not on the denylist are sized and counted, and the cursor moves on by
  the page size. Nothing is written; an error of a query leaves the body at once.
\<close>

definition process_page :: "pg_client \<Rightarrow> string set \<Rightarrow> int \<Rightarrow> State \<Rightarrow> error + (upload list \<times> State)" where
  "process_page db denylist P state =
     (case fetchUploadsAfter db (currentID state) P of
        Inl err \<Rightarrow> Inl err
      | Inr uploads \<Rightarrow>
          (let cids = map content_cid (filter (\<lambda>u. \<not> isDenyListed denylist (source_cid u)) uploads)
           in case (if cids \<noteq> []
                    then (case fetchTotalDagSize db cids of
                            Inl err \<Rightarrow> Inl err
                          | Inr sz \<Rightarrow> Inr (state\<lparr>state_size := state_size state + sz\<rparr>))
                    else Inr state) of
                Inl err \<Rightarrow> Inl err
              | Inr s1 \<Rightarrow>
                  (let s2 = s1\<lparr>state_count := state_count s1 + int (length cids)\<rparr>;
                       s3 = s2\<lparr>currentID := currentID s2 + P\<rparr>
                   in Inr (uploads, s3))))"

text \<open>The whole body: the page is processed, then \<open>saveState\<close> writes the checkpoint.\<close>

definition page :: "pg_client \<Rightarrow> string set \<Rightarrow> int \<Rightarrow> State \<Rightarrow> world \<Rightarrow> (error + State) \<times> world" where
  "page db denylist P state w =
     (case process_page db denylist P state of
        Inl err \<Rightarrow> (Inl err, w)
      | Inr (uploads, s3) \<Rightarrow>
          (Inr s3, \<lparr>files = saveState s3 (files w),
                    pages = pages w @ [(currentID state, uploads)]\<rparr>))"

text \<open>
  The loop \<open>while (state.currentID < range.max)\<close>. The page size is a parameter (the
  script fixes it to \<open>PAGE_SIZE\<close>); a loop that runs forever has the value \<open>None\<close>.
\<close>

partial_function (option) scan ::
  "pg_client \<Rightarrow> string set \<Rightarrow> int \<Rightarrow> int \<Rightarrow> State \<Rightarrow> world \<Rightarrow> ((error + State) \<times> world) option" where
  "scan db denylist P rangeMax state w =
     (if currentID state < rangeMax then
        (case page db denylist P state w of
           (Inl err, w') \<Rightarrow> Some (Inl err, w')
         | (Inr state', w') \<Rightarrow> scan db denylist P rangeMax state' w')
      else Some (Inr state, w))"

text \<open>
  \<open>main\<close>: the state is loaded and the id range fetched, where an error rejects the
  call; an error inside the loop is caught and reported by the spinner.
\<close>

datatype outcome = Completed | Failed error | Rejected error

definition run_from :: "pg_client \<Rightarrow> string set \<Rightarrow> State \<Rightarrow> world \<Rightarrow> (outcome \<times> world) option" where
  "run_from db denylist state w =
     (case fetchUploadIdRange db of
        Inl err \<Rightarrow> Some (Rejected err, w)
      | Inr r \<Rightarrow>
          (case scan db denylist PAGE_SIZE (snd r) state w of
             None \<Rightarrow> None
           | Some (Inl err, w') \<Rightarrow> Some (Failed err, w')
           | Some (Inr state', w') \<Rightarrow> Some (Completed, w')))"

definition main :: "pg_client \<Rightarrow> string set \<Rightarrow> world \<Rightarrow> (outcome \<times> world) option" where
  "main db denylist w =
     (case loadState (files w) of
        Inl err \<Rightarrow> Some (Rejected err, w)
      | Inr state \<Rightarrow> run_from db denylist state w)"




subsection \<open>A small database\<close>

text \<open>
  Two uploads, with the ids 1 and 15000, so that fewer than \<open>PAGE_SIZE\<close> rows have
  an id in the first page's range and the second upload lies beyond it; the DAG sizes of
  both; the same uploads where the second DAG has no row in \<open>cargo.dags\<close>; and a world
  with no file and no page handled.
\<close>

definition ex_upload1 :: upload where
  "ex_upload1 = \<lparr>upload_id = 1, user_id = 1, source_cid = ''src1'', content_cid = ''dag1''\<rparr>"

definition ex_upload2 :: upload where
  "ex_upload2 = \<lparr>upload_id = 15000, user_id = 2, source_cid = ''src2'', content_cid = ''dag2''\<rparr>"

definition ex_db :: pg_client where
  "ex_db = pg_tables [ex_upload1, ex_upload2] [(''dag1'', Some 10), (''dag2'', Some 20)]"

definition ex_db_unsized :: pg_client where
  "ex_db_unsized = pg_tables [ex_upload1, ex_upload2] [(''dag1'', Some 10)]"

definition ex_world :: world where
  "ex_world = \<lparr>files = (\<lambda>p. Inl ENOENT), pages = []\<rparr>"

section \<open>The checkpointed source of denylist-cars.mjs\<close>

definition cars_statePath :: path where
  "cars_statePath = ''./out/denylist-cars.state.json''"

text \<open>
  The state the script starts from:
  \<open>(await State.load({ path: statePath, ...CurrentIDState })) ?? CurrentIDState.init()\<close>.
\<close>

definition cars_initial_state :: "filesystem \<Rightarrow> error + CurrentIDState" where
  "cars_initial_state fs =
     (case State_load CurrentIDState_decode cars_statePath fs of
        Inl err \<Rightarrow> Inl err
      | Inr None \<Rightarrow> Inr CurrentIDState_init
      | Inr (Some state) \<Rightarrow> Inr state)"

section \<open>Export and verification of DAGs (export-cars.mjs)\<close>

subsection \<open>verifyDAG\<close>

text \<open>
  A block of a CAR file, and what \<open>CARReaderStream\<close> yields for a file: the roots of
  its header, as the text of their CIDs, and its blocks.
\<close>

record block =
  block_cid :: string
  block_bytes :: "byte list"

record car =
  roots :: "string list"
  blocks :: "block list"

type_synonym car_files = "path \<Rightarrow> error + car"

text \<open>
  The \<open>HashingLinkIndexer\<close> of linkdex is outside the repository: an indexer is its
  initial index, what \<open>decodeAndIndex\<close> does with a block (it may throw) and the
  structure its report gives.
\<close>

datatype dag_structure = Complete | Partial | Unknown

record 'ix indexer =
  new_index :: 'ix
  decodeAndIndex :: "'ix \<Rightarrow> block \<Rightarrow> error + 'ix"
  report_structure :: "'ix \<Rightarrow> dag_structure"

fun structure_name :: "dag_structure \<Rightarrow> string" where
  "structure_name Complete = ''Complete''"
| "structure_name Partial = ''Partial''"
| "structure_name Unknown = ''Unknown''"

text \<open>The blocks of the file are indexed one after the other; the first error ends it.\<close>

fun index_blocks :: "'ix indexer \<Rightarrow> 'ix \<Rightarrow> block list \<Rightarrow> error + 'ix" where
  "index_blocks lib ix [] = Inr ix"
| "index_blocks lib ix (b # bs) =
     (case decodeAndIndex lib ix b of
        Inl err \<Rightarrow> Inl err
      | Inr ix' \<Rightarrow> index_blocks lib ix' bs)"

text \<open>\<open>header.roots[0]?.toString()\<close>: \<open>None\<close> stands for \<open>undefined\<close>.\<close>

definition first_root :: "car \<Rightarrow> string option" where
  "first_root c = (case roots c of [] \<Rightarrow> None | r # rs \<Rightarrow> Some r)"

definition verifyDAG :: "'ix indexer \<Rightarrow> car_files \<Rightarrow> string \<Rightarrow> path \<Rightarrow> error + unit" where
  "verifyDAG lib cars rootCID p =
     (case (case cars p of
              Inl err \<Rightarrow> Inl err
            | Inr c \<Rightarrow>
                (case index_blocks lib (new_index lib) (blocks c) of
                   Inl err \<Rightarrow> Inl err
                 | Inr ix \<Rightarrow>
                     if first_root c \<noteq> Some rootCID
                     then Inl (Error (''root CID mismatch '' @ (case first_root c of None \<Rightarrow> ''undefined'' | Some r \<Rightarrow> r)
                                       @ '' != '' @ rootCID) None None)
                     else Inr ix)) of
        Inl err \<Rightarrow> Inl (Error (''failed indexing: '' @ message err) None (Some err))
      | Inr ix \<Rightarrow>
          (case (if report_structure lib ix \<noteq> Complete
                 then Inl (Error (''non-complete DAG: '' @ structure_name (report_structure lib ix)) None None)
                 else Inr ()) of
             Inl err \<Rightarrow> Inl (Error (''failed verification: '' @ message err) None (Some err))
           | Inr u \<Rightarrow> Inr ()))"

text \<open>
  An indexer in the manner of linkdex, for blocks whose hash check and links are given
  by two functions: a block whose bytes do not hash to its CID throws, a block that
  cannot be decoded is counted, and any other block is entered with its links unless its
  CID is entered already. The report is Unknown when a block could not be decoded,
  Complete when every link of every entered block is entered, and Partial otherwise.
\<close>

definition link_indexer ::
  "(block \<Rightarrow> bool) \<Rightarrow> (block \<Rightarrow> string list option) \<Rightarrow> ((string \<times> string list) list \<times> nat) indexer" where
  "link_indexer hash_ok links_of =
     \<lparr>new_index = ([], 0),
      decodeAndIndex = (\<lambda>ix b.
        if \<not> hash_ok b then Inl (Error ''CID hash does not match bytes'' None None)
        else (case links_of b of
                None \<Rightarrow> Inr (fst ix, snd ix + 1)
              | Some ls \<Rightarrow>
                  if block_cid b \<in> set (map fst (fst ix)) then Inr ix
                  else Inr (fst ix @ [(block_cid b, ls)], snd ix))),
      report_structure = (\<lambda>ix.
        if 0 < snd ix then Unknown
        else if list_all (\<lambda>e. list_all (\<lambda>l. l \<in> set (map fst (fst ix))) (snd e)) (fst ix)
        then Complete
        else Partial)\<rparr>"

subsection \<open>The content extractor\<close>

definition PEERS :: "string list" where
  "PEERS =
    [''/ip4/212.6.53.91/tcp/8888/p2p/12D3KooWFzZYEChh6Dsy4jHyTopK42oRrk41WVfnpMG5r8eoXa6u'',
     ''/ip4/212.6.53.53/tcp/8888/p2p/12D3KooWJqxfjvbDkKByJQeT5urmeFBavNhNvidsAeqjWr6hf7jT'',
     ''/ip4/212.6.53.51/tcp/8888/p2p/12D3KooWRPfVRXRzEsSrJVhcu616vniJF8zQbuBN87skKdh93CbM'']"

text \<open>
  \<open>shuffle\<close>: for \<open>currentIndex\<close> from the length down to 1, an index below
  \<open>currentIndex\<close> is drawn and its element swapped with the one at
  \<open>currentIndex - 1\<close>. \<open>Math.floor(Math.random() * currentIndex)\<close> is any index below
  \<open>currentIndex\<close>: the draws are a function \<open>random\<close> of the step, reduced modulo
  \<open>currentIndex\<close>.
\<close>

fun shuffle_loop :: "(nat \<Rightarrow> nat) \<Rightarrow> nat \<Rightarrow> 'a list \<Rightarrow> 'a list" where
  "shuffle_loop random 0 array = array"
| "shuffle_loop random (Suc k) array =
     (let randomIndex = random (Suc k) mod Suc k;
          currentIndex = k
      in shuffle_loop random currentIndex
           (array[currentIndex := array ! randomIndex, randomIndex := array ! currentIndex]))"

definition shuffle :: "(nat \<Rightarrow> nat) \<Rightarrow> 'a list \<Rightarrow> 'a list" where
  "shuffle random array = shuffle_loop random (length array) array"

text \<open>
  What the extractor works with: \<open>Link.parse\<close>, which throws on a text that is no CID;
  the export from a peer, given by the blocks that arrive and the error that ends the
  stream, if any; and the indexer. The extractor writes CAR files, enqueues the uploads
  it has extracted and tries peers, which \<open>tried\<close> records with the error of each
  failed attempt.
\<close>

record 'ix extractor_env =
  link_parse :: "string \<Rightarrow> error + string"
  export_dag :: "string \<Rightarrow> string \<Rightarrow> block list \<times> error option"
  indexer :: "'ix indexer"

record extractor_state =
  disk :: car_files
  enqueued :: "(path \<times> upload) list"
  tried :: "(string \<times> error option) list"

definition destPath :: "upload \<Rightarrow> path" where
  "destPath up = ''./out/contents/'' @ content_cid up @ ''.car''"

text \<open>
  The loop over the peers. \<open>Link.parse\<close> stands outside the \<open>try\<close> block, so its error
  leaves the transform; an error of the export or of the verification is caught and the
  next peer is tried; the first peer that passes both enqueues the upload and ends the
  loop.
\<close>

fun try_peers :: "'ix extractor_env \<Rightarrow> upload \<Rightarrow> string list \<Rightarrow> extractor_state \<Rightarrow> error + extractor_state" where
  "try_peers env up [] s = Inr s"
| "try_peers env up (peer # rest) s =
     (case link_parse env (content_cid up) of
        Inl err \<Rightarrow> Inl err
      | Inr rootCID \<Rightarrow>
          (case export_dag env peer rootCID of
             (bs, Some err) \<Rightarrow>
               try_peers env up rest
                 (s\<lparr>disk := (disk s)(destPath up := Inr \<lparr>roots = [rootCID], blocks = bs\<rparr>),
                    tried := tried s @ [(peer, Some err)]\<rparr>)
           | (bs, None) \<Rightarrow>
               (let s1 = s\<lparr>disk := (disk s)(destPath up := Inr \<lparr>roots = [rootCID], blocks = bs\<rparr>)\<rparr>
                in case verifyDAG (indexer env) (disk s1) rootCID (destPath up) of
                     Inl err \<Rightarrow>
                       try_peers env up rest (s1\<lparr>tried := tried s1 @ [(peer, Some err)]\<rparr>)
                   | Inr u \<Rightarrow>
                       Inr (s1\<lparr>enqueued := enqueued s1 @ [(destPath up, up)],
                               tried := tried s1 @ [(peer, None)]\<rparr>))))"

definition transform :: "'ix extractor_env \<Rightarrow> (nat \<Rightarrow> nat) \<Rightarrow> upload \<Rightarrow> extractor_state \<Rightarrow> error + extractor_state" where
  "transform env random up s = (let peers = shuffle random PEERS in try_peers env up peers s)"

text \<open>A peer passes when its export ends without error and the CAR written verifies.\<close>

definition peer_passes :: "'ix extractor_env \<Rightarrow> string \<Rightarrow> string \<Rightarrow> bool" where
  "peer_passes env rootCID peer =
     (case export_dag env peer rootCID of
        (bs, Some err) \<Rightarrow> False
      | (bs, None) \<Rightarrow>
          verifyDAG (indexer env) (\<lambda>p. Inr \<lparr>roots = [rootCID], blocks = bs\<rparr>) rootCID [] = Inr ())"

text \<open>
  The candidates up to and including the first that passes: all of them when none
  passes.
\<close>

definition first_passing :: "('a \<Rightarrow> bool) \<Rightarrow> 'a list \<Rightarrow> 'a list" where
  "first_passing ok ps = takeWhile (\<lambda>p. \<not> ok p) ps @ take 1 (dropWhile (\<lambda>p. \<not> ok p) ps)"

subsection \<open>A small DAG and three peers\<close>

text \<open>
  A root block with two children. The first peer of \<open>PEERS\<close> serves the root and one
  child only, the second serves all three blocks, and the third fails to connect.
\<close>

definition ex_block :: "string \<Rightarrow> block" where
  "ex_block c = \<lparr>block_cid = c, block_bytes = []\<rparr>"

definition ex_links :: "block \<Rightarrow> string list option" where
  "ex_links b = (if block_cid b = ''root'' then Some [''kid1'', ''kid2''] else Some [])"

definition ex_indexer :: "((string \<times> string list) list \<times> nat) indexer" where
  "ex_indexer = link_indexer (\<lambda>b. True) ex_links"

definition ex_cars :: car_files where
  "ex_cars =
     (\<lambda>p. if p = ''complete.car''
          then Inr \<lparr>roots = [''root''], blocks = [ex_block ''root'', ex_block ''kid1'', ex_block ''kid2'']\<rparr>
          else if p = ''partial.car''
          then Inr \<lparr>roots = [''root''], blocks = [ex_block ''root'', ex_block ''kid1'']\<rparr>
          else Inl ENOENT)"

definition peerA :: string where
  "peerA = PEERS ! 0"

definition peerB :: string where
  "peerB = PEERS ! 1"

definition peerC :: string where
  "peerC = PEERS ! 2"

definition ex_env :: "((string \<times> string list) list \<times> nat) extractor_env" where
  "ex_env =
     \<lparr>link_parse = (\<lambda>cidText. Inr cidText),
      export_dag = (\<lambda>peer rootCID.
        if peer = peerA then ([ex_block ''root'', ex_block ''kid1''], None)
        else if peer = peerB
        then ([ex_block ''root'', ex_block ''kid1'', ex_block ''kid2''], None)
        else ([], Some (Error ''connection refused'' None None))),
      indexer = ex_indexer\<rparr>"

definition ex_nft :: upload where
  "ex_nft = \<lparr>upload_id = 1, user_id = 1, source_cid = ''root'', content_cid = ''root''\<rparr>"

definition ex_extractor_state :: extractor_state where
  "ex_extractor_state = \<lparr>disk = (\<lambda>p. Inl ENOENT), enqueued = [], tried = []\<rparr>"

subsection \<open>exportDAG\<close>

text \<open>
  What an export holds while it runs: the stall timer of
  \<open>new TimeoutController(5000)\<close>, the progress reporter of \<open>setInterval\<close>, and the
  libp2p nodes that \<open>getLibp2p\<close> has created and nothing has stopped.
\<close>

record resources =
  timer_armed :: bool
  interval_active :: bool
  libp2p_nodes :: nat

datatype stream_status = Readable | Closed | Errored error | Cancelled

record export_session =
  held :: resources
  status :: stream_status
  queue :: "block list"
  totalBytes :: nat

text \<open>
  \<open>exportDAG\<close> arms the timer and starts the reporter when it is called, before the
  stream starts.
\<close>

definition exportDAG :: export_session where
  "exportDAG =
     \<lparr>held = \<lparr>timer_armed = True, interval_active = True, libp2p_nodes = 0\<rparr>,
      status = Readable, queue = [], totalBytes = 0\<rparr>"

text \<open>
  \<open>start\<close>: \<open>getLibp2p\<close> creates a node and \<open>fromNetwork\<close> connects it to the peer;
  either may throw, which errors the stream. No handler of \<open>start\<close> clears the timer or
  the reporter.
\<close>

datatype start_result = Started | GetLibp2pThrows error | FromNetworkThrows error

fun start :: "start_result \<Rightarrow> export_session \<Rightarrow> export_session" where
  "start Started s = s\<lparr>held := (held s)\<lparr>libp2p_nodes := libp2p_nodes (held s) + 1\<rparr>\<rparr>"
| "start (GetLibp2pThrows err) s = s\<lparr>status := Errored err\<rparr>"
| "start (FromNetworkThrows err) s =
     s\<lparr>held := (held s)\<lparr>libp2p_nodes := libp2p_nodes (held s) + 1\<rparr>, status := Errored err\<rparr>"

text \<open>
  \<open>pull\<close> awaits \<open>iterator.next()\<close>, which yields a block, reports the end or throws
  (also when the timer has aborted the transfer). \<open>timeout.reset()\<close> arms the timer
  again; \<open>timeout.clear()\<close> and \<open>clearInterval\<close> release the timer and the reporter.
\<close>

datatype next_result = Value block | Done | Throws error

definition clear :: "resources \<Rightarrow> resources" where
  "clear r = r\<lparr>timer_armed := False, interval_active := False\<rparr>"

fun pull :: "next_result \<Rightarrow> export_session \<Rightarrow> export_session" where
  "pull (Value v) s =
     s\<lparr>held := (held s)\<lparr>timer_armed := True\<rparr>,
       totalBytes := totalBytes s + length (block_bytes v),
       queue := queue s @ [v]\<rparr>"
| "pull Done s = s\<lparr>held := clear ((held s)\<lparr>timer_armed := True\<rparr>), status := Closed\<rparr>"
| "pull (Throws err) s = s\<lparr>held := clear (held s), status := Errored err\<rparr>"

definition cancel :: "export_session \<Rightarrow> export_session" where
  "cancel s = s\<lparr>held := clear (held s), status := Cancelled\<rparr>"

text \<open>
  A session: the outcome of \<open>start\<close>, then what the consumer of the stream does, a pull
  (with what the iterator answers) or a cancellation. A stream that is closed, errored
  or cancelled takes no further call.
\<close>

datatype event = Pull next_result | Cancel

fun step :: "export_session \<Rightarrow> event \<Rightarrow> export_session" where
  "step s (Pull r) = (if status s = Readable then pull r s else s)"
| "step s Cancel = (if status s = Readable then cancel s else s)"

definition session :: "start_result \<Rightarrow> event list \<Rightarrow> export_session" where
  "session sr events = foldl step (start sr exportDAG) events"

text \<open>All that the export acquired is released.\<close>

definition released :: "resources \<Rightarrow> bool" where
  "released r = (\<not> timer_armed r \<and> \<not> interval_active r \<and> libp2p_nodes r = 0)"

section \<open>Properties of the JavaScript values\<close>

subsection \<open>Decimal text of a bigint and back\<close>

lemma digit_value_digit_char: "d < 10 \<Longrightarrow> digit_value (digit_char d) = Some d"
  by (simp add: digit_value_def digit_char_def Let_def)

lemma parse_digits_append:
  "parse_digits b (xs @ ys) acc =
     (case parse_digits b xs acc of None \<Rightarrow> None | Some a \<Rightarrow> parse_digits b ys a)"
  by (induction xs arbitrary: acc) (auto split: option.splits)

lemma parse_digits_of_nat: "parse_digits 10 (digits_of_nat n) 0 = Some n"
proof (induction n rule: digits_of_nat.induct)
  case (1 n)
  show ?case
  proof (cases "n < 10")
    case True
    then show ?thesis by (simp add: digits_of_nat.simps digit_value_digit_char)
  next
    case False
    with 1 have "parse_digits 10 (digits_of_nat (n div 10)) 0 = Some (n div 10)" by simp
    with False show ?thesis
      by (subst digits_of_nat.simps) (simp add: parse_digits_append digit_value_digit_char)
  qed
qed

lemma is_digit_digit_char: "d < 10 \<Longrightarrow> is_digit (digit_char d)"
  by (simp add: is_digit_def digit_char_def)

lemma digits_of_nat_digits: "c \<in> set (digits_of_nat n) \<Longrightarrow> is_digit c"
proof (induction n arbitrary: c rule: digits_of_nat.induct)
  case (1 n)
  from "1.prems" show ?case
    by (subst (asm) digits_of_nat.simps) (auto simp: is_digit_digit_char "1.IH" split: if_splits)
qed

lemma digits_of_nat_nonempty: "digits_of_nat n \<noteq> []"
  by (subst digits_of_nat.simps) simp

lemma is_digit_not_ws: "is_digit c \<Longrightarrow> \<not> is_ws c"
  by (auto simp: is_digit_def is_ws_def)

lemma hd_digits: "is_digit (hd (digits_of_nat n))"
  using digits_of_nat_digits[of "hd (digits_of_nat n)" n] digits_of_nat_nonempty[of n] by simp

lemma last_digits: "is_digit (last (digits_of_nat n))"
  using digits_of_nat_digits[of "last (digits_of_nat n)" n] digits_of_nat_nonempty[of n] by simp

lemma hd_digits_nonzero: "0 < n \<Longrightarrow> hd (digits_of_nat n) \<noteq> CHR ''0''"
proof (induction n rule: digits_of_nat.induct)
  case (1 n)
  show ?case
  proof (cases "n < 10")
    case True
    have "(of_char (digit_char n) :: nat) = 48 + n" using True by (simp add: digit_char_def)
    moreover have "(of_char (CHR ''0'') :: nat) = 48" by simp
    ultimately have "digit_char n \<noteq> CHR ''0''" using "1.prems" by auto
    with True show ?thesis by (simp add: digits_of_nat.simps)
  next
    case False
    then have "0 < n div 10" by simp
    with 1 False have "hd (digits_of_nat (n div 10)) \<noteq> CHR ''0''" by simp
    with False show ?thesis
      by (subst digits_of_nat.simps) (simp add: digits_of_nat_nonempty)
  qed
qed

lemma length_digits_gt1: "1 < length (digits_of_nat n) \<Longrightarrow> 0 < n"
  by (cases "n = 0") (simp_all add: digits_of_nat.simps)

lemma parse_chars_Cons:
  "parse_chars (c # xs) =
     (if c = CHR 0x22 then Some ([], xs)
      else if xs = [] then None
      else if c = CHR 0x5C then
        (case unescape (hd xs) of
           None \<Rightarrow> None
         | Some x \<Rightarrow> map_option (\<lambda>(s, t). (x # s, t)) (parse_chars (tl xs)))
      else if (of_char c :: nat) < 32 then None
      else map_option (\<lambda>(s, t). (c # s, t)) (parse_chars xs))"
  by (cases xs) (auto split: option.splits)

lemma parse_chars_escape:
  "printable s \<Longrightarrow> parse_chars (escape s @ CHR 0x22 # rest) = Some (s, rest)"
proof (induction s)
  case Nil
  show ?case by (simp add: parse_chars_Cons)
next
  case (Cons c cs)
  then have ih: "parse_chars (escape cs @ CHR 0x22 # rest) = Some (cs, rest)"
    and c: "32 \<le> (of_char c :: nat)" by (simp_all add: printable_def)
  show ?case
  proof (cases "c = CHR 0x22 \<or> c = CHR 0x5C")
    case True
    then have "unescape c = Some c" by (auto simp: unescape_def)
    with True ih show ?thesis by (auto simp: parse_chars_Cons)
  next
    case False
    with ih c show ?thesis by (simp add: parse_chars_Cons)
  qed
qed

lemma parse_chars_quote:
  "printable s \<Longrightarrow> parse_chars (tl (quote s) @ rest) = Some (s, rest)"
  by (simp add: quote_def parse_chars_escape)

lemma is_digit_of_char: "is_digit c \<Longrightarrow> 48 \<le> (of_char c :: nat)"
  by (simp add: is_digit_def)

lemma printable_digits: "printable (digits_of_nat n)"
  unfolding printable_def using digits_of_nat_digits is_digit_of_char by fastforce

lemma printable_BigInt_toString: "printable (BigInt_toString i)"
  using printable_digits by (simp add: BigInt_toString_def printable_def)

lemma takeWhile_digits:
  assumes "\<not> is_digit c"
  shows "takeWhile is_digit (digits_of_nat n @ c # r) = digits_of_nat n"
    and "dropWhile is_digit (digits_of_nat n @ c # r) = c # r"
  using assms digits_of_nat_digits by (simp_all add: takeWhile_append2 dropWhile_append2)

lemma parse_int_digits:
  assumes "c = CHR '','' \<or> c = CHR ''}''"
  shows "parse_int (digits_of_nat n @ c # r) = Some (int n, c # r)"
proof -
  have nd: "\<not> is_digit c" using assms by (auto simp: is_digit_def)
  have hd1: "hd (digits_of_nat n @ c # r) = hd (digits_of_nat n)"
    by (simp add: digits_of_nat_nonempty)
  have "is_digit (hd (digits_of_nat n))" by (rule hd_digits)
  then have nm: "hd (digits_of_nat n) \<noteq> CHR ''-''" by (auto simp: is_digit_def)
  have lz: "\<not> (1 < length (digits_of_nat n) \<and> hd (digits_of_nat n) = CHR ''0'')"
    using hd_digits_nonzero length_digits_gt1 by blast
  show ?thesis
    using assms nm lz
    by (auto simp: parse_int_def Let_def hd1 takeWhile_digits[OF nd] digits_of_nat_nonempty
        parse_digits_of_nat)
qed

lemma parse_int_toString:
  assumes "c = CHR '','' \<or> c = CHR ''}''"
  shows "parse_int (BigInt_toString i @ c # r) = Some (i, c # r)"
proof (cases "i < 0")
  case False
  then show ?thesis using parse_int_digits[OF assms, of "nat i" r]
    by (simp add: BigInt_toString_def)
next
  case True
  let ?n = "nat (- i)"
  have nd: "\<not> is_digit c" using assms by (auto simp: is_digit_def)
  have pos: "0 < ?n" using True by simp
  have lz: "\<not> (1 < length (digits_of_nat ?n) \<and> hd (digits_of_nat ?n) = CHR ''0'')"
    using hd_digits_nonzero[OF pos] by blast
  show ?thesis
    using True assms lz
    by (auto simp: BigInt_toString_def parse_int_def Let_def takeWhile_digits[OF nd]
        digits_of_nat_nonempty parse_digits_of_nat)
qed

lemma hd_BigInt_toString:
  "BigInt_toString i \<noteq> []" "hd (BigInt_toString i) \<noteq> CHR 0x22" "\<not> json_ws (hd (BigInt_toString i))"
proof -
  show "BigInt_toString i \<noteq> []" by (simp add: BigInt_toString_def digits_of_nat_nonempty)
  have "hd (BigInt_toString i) = CHR ''-'' \<or> is_digit (hd (BigInt_toString i))"
    using hd_digits by (simp add: BigInt_toString_def)
  then show "hd (BigInt_toString i) \<noteq> CHR 0x22" "\<not> json_ws (hd (BigInt_toString i))"
    by (auto simp: is_digit_def json_ws_def)
qed

lemma skip_ws_Cons: "\<not> json_ws c \<Longrightarrow> skip_ws (c # cs) = c # cs"
  by (simp add: skip_ws_def)

lemma skip_ws_hd: "xs \<noteq> [] \<Longrightarrow> \<not> json_ws (hd xs) \<Longrightarrow> skip_ws (xs @ ys) = xs @ ys"
  by (cases xs) (simp_all add: skip_ws_def)

lemma hd_stringify_value:
  "stringify_value v \<noteq> []" "\<not> json_ws (hd (stringify_value v))"
proof -
  show "stringify_value v \<noteq> []"
  proof (cases v)
    case (JString s)
    then show ?thesis by (simp add: quote_def)
  next
    case (JNumber n)
    then show ?thesis using hd_BigInt_toString(1)[of n] by simp
  qed
  show "\<not> json_ws (hd (stringify_value v))"
  proof (cases v)
    case (JString s)
    then show ?thesis by (simp add: quote_def json_ws_def)
  next
    case (JNumber n)
    then show ?thesis using hd_BigInt_toString(3)[of n] by simp
  qed
qed

lemma parse_value_stringify:
  assumes "printable_value v" "c = CHR '','' \<or> c = CHR ''}''"
  shows "parse_value (stringify_value v @ c # r) = Some (v, c # r)"
proof (cases v)
  case (JString s)
  with assms have "printable s" by (simp add: printable_value_def)
  then show ?thesis using JString by (simp add: parse_value_def quote_def parse_chars_escape)
next
  case (JNumber n)
  obtain d ds where d: "BigInt_toString n = d # ds" "d \<noteq> CHR 0x22"
    using hd_BigInt_toString[of n] by (cases "BigInt_toString n") auto
  have "parse_int (d # ds @ c # r) = Some (n, c # r)"
    using parse_int_toString[OF assms(2), of n r] d by simp
  then show ?thesis using JNumber d by (simp add: parse_value_def)
qed

lemma parse_member_stringify:
  assumes "printable (fst m)" "printable_value (snd m)" "c = CHR '','' \<or> c = CHR ''}''"
  shows "parse_member (stringify_member m @ c # r) = Some (m, c # r)"
proof -
  let ?v = "stringify_value (snd m)"
  have k: "parse_chars (escape (fst m) @ CHR 0x22 # (CHR '':'' # ?v @ c # r)) =
      Some (fst m, CHR '':'' # ?v @ c # r)"
    using assms(1) by (rule parse_chars_escape)
  have ws1: "skip_ws (CHR '':'' # ?v @ c # r) = CHR '':'' # ?v @ c # r"
    by (simp add: skip_ws_def json_ws_def)
  have ws2: "skip_ws (?v @ c # r) = ?v @ c # r"
    by (rule skip_ws_hd) (rule hd_stringify_value)+
  show ?thesis
    using k ws1 ws2 parse_value_stringify[OF assms(2,3), of r]
    by (simp add: parse_member_def stringify_member_def quote_def)
qed

lemma hd_stringify_member:
  "stringify_member m \<noteq> []" "hd (stringify_member m) = CHR 0x22"
  by (simp_all add: stringify_member_def quote_def)

lemma parse_members_stringify:
  "ms \<noteq> [] \<Longrightarrow> printable_object ms \<Longrightarrow> parse_members (stringify_members ms) = Some (ms, [])"
proof (induction ms rule: stringify_members.induct)
  case 1
  then show ?case by simp
next
  case (2 m)
  then have p: "printable (fst m)" "printable_value (snd m)" by (simp_all add: printable_object_def)
  have ws: "skip_ws (stringify_member m @ ''}'') = stringify_member m @ ''}''"
    by (rule skip_ws_hd) (simp_all add: hd_stringify_member json_ws_def)
  have "parse_member (stringify_member m @ ''}'') = Some (m, ''}'')"
    using parse_member_stringify[OF p, of "CHR ''}''" "[]"] by simp
  then show ?case
    by (subst parse_members.simps) (simp add: ws skip_ws_Cons json_ws_def)
next
  case (3 m n ms)
  then have p: "printable (fst m)" "printable_value (snd m)" and rest: "printable_object (n # ms)"
    by (simp_all add: printable_object_def)
  let ?rest = "stringify_members (n # ms)"
  have ws: "skip_ws (stringify_member m @ CHR '','' # ?rest) = stringify_member m @ CHR '','' # ?rest"
    by (rule skip_ws_hd) (simp_all add: hd_stringify_member json_ws_def)
  have "parse_member (stringify_member m @ CHR '','' # ?rest) = Some (m, CHR '','' # ?rest)"
    using parse_member_stringify[OF p, of "CHR '',''" ?rest] by simp
  moreover have "parse_members ?rest = Some (n # ms, [])" using 3 rest by simp
  ultimately show ?case
    by (subst parse_members.simps) (simp add: ws skip_ws_Cons json_ws_def)
qed

lemma JSON_parse_stringify:
  "printable_object obj \<Longrightarrow> JSON_parse (JSON_stringify obj) = Inr obj"
proof (cases obj)
  case Nil
  then show ?thesis by (simp add: JSON_parse_def JSON_stringify_def skip_ws_def json_ws_def)
next
  case (Cons m ms)
  assume p: "printable_object obj"
  have ne: "obj \<noteq> []" using Cons by simp
  obtain r where r: "stringify_members obj = CHR 0x22 # r"
    using Cons hd_stringify_member[of m]
    by (cases ms; cases "stringify_member m") auto
  have "parse_members (CHR 0x22 # r) = Some (obj, [])"
    using parse_members_stringify[OF ne p] r by simp
  then show ?thesis
    by (simp add: JSON_parse_def JSON_stringify_def r skip_ws_def json_ws_def)
qed

lemma trim_id:
  assumes "s \<noteq> []" "\<not> is_ws (hd s)" "\<not> is_ws (last s)"
  shows "trim s = s"
proof -
  have a: "dropWhile is_ws s = s" using assms by (simp add: dropWhile_eq_self_iff)
  have b: "dropWhile is_ws (rev s) = rev s" using assms by (simp add: dropWhile_eq_self_iff hd_rev)
  show ?thesis by (simp add: trim_def a b)
qed

lemma StringToBigInt_digits: "StringToBigInt (digits_of_nat n) = Some (int n)"
proof -
  let ?s = "digits_of_nat n"
  have t: "trim ?s = ?s"
    by (rule trim_id) (simp_all add: digits_of_nat_nonempty hd_digits last_digits is_digit_not_ws)
  have p: "parse_number 10 ?s = Some n"
    by (simp add: parse_number_def digits_of_nat_nonempty parse_digits_of_nat)
  show ?thesis
  proof (cases ?s)
    case Nil
    then show ?thesis using digits_of_nat_nonempty by simp
  next
    case (Cons c cs)
    note C = this
    show ?thesis
    proof (cases cs)
      case Nil
      with C p t show ?thesis by (simp add: StringToBigInt_def)
    next
      case (Cons d ds)
      have "is_digit c" "is_digit d"
        using digits_of_nat_digits[of c n] digits_of_nat_digits[of d n] C Cons by auto
      then have "c \<noteq> CHR ''-''" "c \<noteq> CHR ''+''" "d \<noteq> CHR ''x''" "d \<noteq> CHR ''X''"
        "d \<noteq> CHR ''o''" "d \<noteq> CHR ''O''" "d \<noteq> CHR ''b''" "d \<noteq> CHR ''B''"
        by (auto simp: is_digit_def)
      with C Cons p t show ?thesis by (simp add: StringToBigInt_def)
    qed
  qed
qed

lemma StringToBigInt_toString: "StringToBigInt (BigInt_toString i) = Some i"
proof (cases "i < 0")
  case False
  then show ?thesis by (simp add: BigInt_toString_def StringToBigInt_digits)
next
  case True
  let ?s = "digits_of_nat (nat (- i))"
  have ne: "?s \<noteq> []" by (rule digits_of_nat_nonempty)
  have l: "\<not> is_ws (last (CHR ''-'' # ?s))" using last_digits[of "nat (- i)"] ne by (simp add: is_digit_not_ws)
  have t: "trim (CHR ''-'' # ?s) = CHR ''-'' # ?s"
    by (rule trim_id) (use l in \<open>simp_all add: is_ws_def\<close>)
  have p: "parse_number 10 ?s = Some (nat (- i))"
    by (simp add: parse_number_def ne parse_digits_of_nat)
  obtain d ds where s: "?s = d # ds" using ne by (cases ?s) auto
  show ?thesis using True t p s by (simp add: BigInt_toString_def StringToBigInt_def)
qed

lemma char_of_digits:
  "char_of (48::nat) = CHR ''0''" "char_of (49::nat) = CHR ''1''" "char_of (50::nat) = CHR ''2''"
  "char_of (51::nat) = CHR ''3''" "char_of (52::nat) = CHR ''4''" "char_of (53::nat) = CHR ''5''"
  "char_of (54::nat) = CHR ''6''" "char_of (55::nat) = CHR ''7''" "char_of (56::nat) = CHR ''8''"
  "char_of (57::nat) = CHR ''9''"
  by code_simp+

subsection \<open>The checkpoint round trip\<close>

lemma printable_key_currentID: "printable ''currentID''"
  by (simp add: printable_def)

lemma CurrentIDState_roundtrip: "CurrentIDState_decode (CurrentIDState_encode st) = Inr st"
proof -
  let ?obj = "[(''currentID'', JString (BigInt_toString (currentID st)))]"
  have "printable_object ?obj"
    by (simp add: printable_object_def printable_value_def printable_key_currentID
        printable_BigInt_toString)
  then have "JSON_parse (JSON_stringify ?obj) = Inr ?obj" by (rule JSON_parse_stringify)
  then show ?thesis
    by (simp add: CurrentIDState_decode_def CurrentIDState_encode_def property_def BigInt_def
        BigInt_of_string_def StringToBigInt_toString)
qed

lemma State_load_store:
  assumes "\<And>s. decode (encode s) = Inr s"
  shows "State_load decode p (State_store encode p st fs) = Inr (Some st)"
  using assms by (simp add: State_load_def State_store_def readFile_def writeFile_def)

lemma State_load_absent: "State_load decode p (fs(p := Inl ENOENT)) = Inr None"
  by (simp add: State_load_def readFile_def ENOENT_def)

text \<open>
  C3. A cursor of any size survives \<open>encode\<close> followed by \<open>decode\<close>, and \<open>store\<close>
  followed by \<open>load\<close>, unchanged: the cursor is written as its decimal text and read
  back with \<open>BigInt\<close>, never as a floating-point number. When the checkpoint file is
  absent, \<open>load\<close> reports absence (\<open>None\<close>) and the script starts from the state of
  \<open>init\<close>, whose cursor is zero.
\<close>

theorem checkpoint_roundtrip:
  "CurrentIDState_decode (CurrentIDState_encode \<lparr>currentID = n\<rparr>) = Inr \<lparr>currentID = n\<rparr>
   \<and> State_load CurrentIDState_decode p
         (State_store CurrentIDState_encode p \<lparr>currentID = n\<rparr> fs) = Inr (Some \<lparr>currentID = n\<rparr>)
   \<and> State_load CurrentIDState_decode p (fs(p := Inl ENOENT)) = Inr None
   \<and> cars_initial_state (fs(cars_statePath := Inl ENOENT)) = Inr \<lparr>currentID = 0\<rparr>"
  by (simp add: CurrentIDState_roundtrip State_load_store State_load_absent
      cars_initial_state_def CurrentIDState_init_def)

text \<open>The bytes written for the cursor \<open>2\<^sup>5\<^sup>3 + 1\<close>, which no double represents.\<close>

lemma encode_beyond_double:
  "CurrentIDState_encode \<lparr>currentID = 9007199254740993\<rparr>
     = [CHR ''{'', CHR 0x22] @ ''currentID'' @ [CHR 0x22, CHR '':'', CHR 0x22]
       @ ''9007199254740993'' @ [CHR 0x22, CHR ''}'']"
  by (simp add: CurrentIDState_encode_def JSON_stringify_def stringify_member_def quote_def
      BigInt_toString_def digits_of_nat.simps digit_char_def char_of_digits)

section \<open>Properties of the checkpointed scan\<close>









lemma printable_keys: "printable ''currentID''" "printable ''size''" "printable ''count''"
  by (simp_all add: printable_def)

lemma parseState_stringify:
  "parseState (JSON_stringify [(''currentID'', JString (BigInt_toString (currentID st))),
                  (''size'', JString (BigInt_toString (state_size st))),
                  (''count'', JNumber (state_count st))]) = Inr st"
proof -
  let ?obj = "[(''currentID'', JString (BigInt_toString (currentID st))),
                  (''size'', JString (BigInt_toString (state_size st))),
                  (''count'', JNumber (state_count st))]"
  have "printable_object ?obj"
    by (simp add: printable_object_def printable_value_def printable_keys
        printable_BigInt_toString)
  then have "JSON_parse (JSON_stringify ?obj) = Inr ?obj" by (rule JSON_parse_stringify)
  then show ?thesis
    by (simp add: parseState_def property_def BigInt_def BigInt_of_string_def
        StringToBigInt_toString)
qed

lemma loadState_saveState: "loadState (saveState st fs) = Inr st"
  by (simp add: loadState_def saveState_def readFile_def writeFile_def parseState_stringify)


subsection \<open>The scan of the small database\<close>

lemma ex_fetch:
  "fetchUploadsAfter ex_db 0 10000 = Inr [ex_upload1, ex_upload2]"
  "fetchUploadsAfter ex_db 10000 10000 = Inr [ex_upload2]"
  "fetchUploadsAfter ex_db_unsized 0 10000 = Inr [ex_upload1, ex_upload2]"
  "fetchUploadsAfter ex_db_unsized 10000 10000 = Inr [ex_upload2]"
  by (simp_all add: fetchUploadsAfter_def ex_db_def ex_db_unsized_def pg_tables_def
      sql_uploads_after_def ex_upload1_def ex_upload2_def)

lemma ex_sizes:
  "fetchTotalDagSize ex_db [''dag1'', ''dag2''] = Inr 30"
  "fetchTotalDagSize ex_db [''dag2''] = Inr 20"
  "fetchTotalDagSize ex_db_unsized [''dag1'', ''dag2''] = Inr 10"
  "fetchTotalDagSize ex_db_unsized [''dag2'']
     = Inl (Error ''TypeError: Cannot convert null to a BigInt'' None None)"
  by (simp_all add: fetchTotalDagSize_def ex_db_def ex_db_unsized_def pg_tables_def
      sql_sum_size_actual_def List.map_filter_def)

lemma not_listed_empty: "\<not> isDenyListed {} cid"
  by (simp add: isDenyListed_def)

lemma ex_process1:
  "process_page ex_db {} 10000 \<lparr>currentID = 0, state_size = 0, state_count = 0\<rparr>
     = Inr ([ex_upload1, ex_upload2], \<lparr>currentID = 10000, state_size = 30, state_count = 2\<rparr>)"
  by (simp add: process_page_def ex_fetch not_listed_empty Let_def ex_sizes)
     (simp add: ex_upload1_def ex_upload2_def ex_sizes)

lemma ex_process2:
  "process_page ex_db {} 10000 \<lparr>currentID = 10000, state_size = 30, state_count = 2\<rparr>
     = Inr ([ex_upload2], \<lparr>currentID = 20000, state_size = 50, state_count = 3\<rparr>)"
  by (simp add: process_page_def ex_fetch not_listed_empty Let_def ex_sizes)
     (simp add: ex_upload2_def ex_sizes)



lemma ex_scan:
  "scan ex_db {} 10000 15000 \<lparr>currentID = 0, state_size = 0, state_count = 0\<rparr> ex_world
     = Some (Inr \<lparr>currentID = 20000, state_size = 50, state_count = 3\<rparr>,
         \<lparr>files = saveState \<lparr>currentID = 20000, state_size = 50, state_count = 3\<rparr>
                    (saveState \<lparr>currentID = 10000, state_size = 30, state_count = 2\<rparr>
                       (files ex_world)),
          pages = [(0, [ex_upload1, ex_upload2]), (10000, [ex_upload2])]\<rparr>)"
  apply (subst scan.simps)
  apply (simp add: page_def ex_process1)
  apply (subst scan.simps)
  apply (simp add: page_def ex_process2)
  apply (subst scan.simps)
  apply (simp add: ex_world_def)
  done


lemma ex_loadState: "loadState (files ex_world) = Inr \<lparr>currentID = 0, state_size = 0, state_count = 0\<rparr>"
  by (simp add: loadState_def ex_world_def readFile_def ENOENT_def)

lemma ex_range:
  "fetchUploadIdRange ex_db = Inr (1, 15000)" "fetchUploadIdRange ex_db_unsized = Inr (1, 15000)"
  by (simp_all add: fetchUploadIdRange_def ex_db_def ex_db_unsized_def pg_tables_def
      sql_min_max_id_def ex_upload1_def ex_upload2_def)

lemma ex_main:
  "main ex_db {} ex_world
     = Some (Completed,
         \<lparr>files = saveState \<lparr>currentID = 20000, state_size = 50, state_count = 3\<rparr>
                    (saveState \<lparr>currentID = 10000, state_size = 30, state_count = 2\<rparr>
                       (files ex_world)),
          pages = [(0, [ex_upload1, ex_upload2]), (10000, [ex_upload2])]\<rparr>)"
  by (simp add: main_def run_from_def ex_loadState ex_range PAGE_SIZE_def ex_scan)



section \<open>Properties of the denylist filter\<close>

lemma hex_digit_inj: "m < 16 \<Longrightarrow> n < 16 \<Longrightarrow> hex_digit m = hex_digit n \<Longrightarrow> m = n"
proof -
  assume m: "m < 16" and n: "n < 16" and e: "hex_digit m = hex_digit n"
  have d: "distinct ''0123456789abcdef''" by simp
  have l: "length ''0123456789abcdef'' = 16" by simp
  from e have "''0123456789abcdef'' ! m = ''0123456789abcdef'' ! n" by (simp only: hex_digit_def)
  with nth_eq_iff_index_eq[OF d, of m n] m n l show "m = n" by simp
qed

lemma byte_nibbles: "unat (b :: byte) div 16 < 16" "unat b mod 16 < 16"
proof -
  have "unat b < 2 ^ LENGTH(8)" by (rule unsigned_less)
  then have "unat b < 256" by simp
  then show "unat b div 16 < 16" by simp
  show "unat b mod 16 < 16" by simp
qed

lemma byte_eq_nibbles:
  assumes "unat (a :: byte) div 16 = unat (b :: byte) div 16" "unat a mod 16 = unat b mod 16"
  shows "a = b"
proof -
  have "unat a = 16 * (unat a div 16) + unat a mod 16" by simp
  also have "\<dots> = 16 * (unat b div 16) + unat b mod 16" using assms by simp
  also have "\<dots> = unat b" by simp
  finally show ?thesis by (simp add: word_unat_eq_iff)
qed

lemma hex_inj: "hex xs = hex ys \<Longrightarrow> xs = ys"
proof (induction xs arbitrary: ys)
  case Nil
  then show ?case by (cases ys) (simp_all add: hex_def)
next
  case (Cons a as)
  show ?case
  proof (cases ys)
    case Nil
    with Cons.prems show ?thesis by (simp add: hex_def)
  next
    case (Cons b bs)
    with Cons.prems have h1: "hex_digit (unat a div 16) = hex_digit (unat b div 16)"
      and h2: "hex_digit (unat a mod 16) = hex_digit (unat b mod 16)"
      and t: "hex as = hex bs" by (simp_all add: hex_def)
    from hex_digit_inj[OF byte_nibbles(1) byte_nibbles(1) h1]
         hex_digit_inj[OF byte_nibbles(2) byte_nibbles(2) h2]
    have "a = b" by (rule byte_eq_nibbles)
    with Cons.IH[OF t] Cons show ?thesis by simp
  qed
qed

lemma isDenyListed_anchor: "isDenyListed denylist cid = (anchor cid \<in> denylist)"
  by (simp add: isDenyListed_def anchor_def Let_def)

section \<open>Properties of verification and export\<close>

lemma verifyDAG_Inr_iff:
  "(verifyDAG lib cars rootCID p = Inr ()) =
     (\<exists>c ix. cars p = Inr c \<and> index_blocks lib (new_index lib) (blocks c) = Inr ix
        \<and> first_root c = Some rootCID \<and> report_structure lib ix = Complete)"
  by (auto simp: verifyDAG_def split: sum.splits if_splits)

lemma verifyDAG_mismatch:
  assumes "cars p = Inr c" "index_blocks lib (new_index lib) (blocks c) = Inr ix"
    "first_root c \<noteq> Some rootCID"
  shows "verifyDAG lib cars rootCID p =
     Inl (Error (''failed indexing: root CID mismatch ''
                   @ (case first_root c of None \<Rightarrow> ''undefined'' | Some r \<Rightarrow> r)
                   @ '' != '' @ rootCID) None
            (Some (Error (''root CID mismatch ''
                   @ (case first_root c of None \<Rightarrow> ''undefined'' | Some r \<Rightarrow> r)
                   @ '' != '' @ rootCID) None None)))"
  using assms by (simp add: verifyDAG_def)

lemma verifyDAG_incomplete:
  assumes "cars p = Inr c" "index_blocks lib (new_index lib) (blocks c) = Inr ix"
    "first_root c = Some rootCID" "report_structure lib ix \<noteq> Complete"
  shows "verifyDAG lib cars rootCID p =
     Inl (Error (''failed verification: non-complete DAG: ''
                   @ structure_name (report_structure lib ix)) None
            (Some (Error (''non-complete DAG: '' @ structure_name (report_structure lib ix))
                     None None)))"
  using assms by (simp add: verifyDAG_def)

lemma index_blocks_report_update:
  "index_blocks (lib\<lparr>report_structure := f\<rparr>) ix bs = index_blocks lib ix bs"
  by (induction bs arbitrary: ix) (simp_all split: sum.splits)

lemma ex_index_complete:
  "index_blocks ex_indexer (new_index ex_indexer)
     [ex_block ''root'', ex_block ''kid1'', ex_block ''kid2'']
   = Inr ([(''root'', [''kid1'', ''kid2'']), (''kid1'', []), (''kid2'', [])], 0)"
  by (simp add: ex_indexer_def link_indexer_def ex_links_def ex_block_def)

lemma ex_index_partial:
  "index_blocks ex_indexer (new_index ex_indexer) [ex_block ''root'', ex_block ''kid1'']
   = Inr ([(''root'', [''kid1'', ''kid2'']), (''kid1'', [])], 0)"
  by (simp add: ex_indexer_def link_indexer_def ex_links_def ex_block_def)

lemma ex_report:
  "report_structure ex_indexer ([(''root'', [''kid1'', ''kid2'']), (''kid1'', []), (''kid2'', [])], 0)
     = Complete"
  "report_structure ex_indexer ([(''root'', [''kid1'', ''kid2'']), (''kid1'', [])], 0) = Partial"
  by (simp_all add: ex_indexer_def link_indexer_def)

lemma shuffle_loop_mset:
  "k \<le> length xs \<Longrightarrow> mset (shuffle_loop random k xs) = mset xs"
proof (induction k arbitrary: xs)
  case 0
  show ?case by simp
next
  case (Suc k)
  let ?r = "random (Suc k) mod Suc k"
  let ?ys = "xs[k := xs ! ?r, ?r := xs ! k]"
  have "?r < Suc k" by simp
  then have r: "?r < length xs" using Suc.prems by linarith
  have k: "k < length xs" using Suc.prems by simp
  have m: "mset ?ys = mset xs" using r k by (rule mset_swap)
  have "k \<le> length ?ys" using k by simp
  from Suc.IH[OF this] m show ?case by (simp add: Let_def)
qed

lemma shuffle_mset: "mset (shuffle random xs) = mset xs"
  by (simp add: shuffle_def shuffle_loop_mset)

lemma distinct_PEERS: "distinct PEERS"
  by (simp add: PEERS_def)

lemma shuffle_PEERS: "distinct (shuffle random PEERS)" "set (shuffle random PEERS) = set PEERS"
proof -
  have m: "mset (shuffle random PEERS) = mset PEERS" by (rule shuffle_mset)
  show "distinct (shuffle random PEERS)"
    using mset_eq_imp_distinct_iff[OF m] distinct_PEERS by simp
  show "set (shuffle random PEERS) = set PEERS" using m by (rule mset_eq_setD)
qed

lemma verifyDAG_written:
  "verifyDAG lib (d(p := Inr c)) rootCID p = verifyDAG lib (\<lambda>q. Inr c) rootCID []"
  by (simp add: verifyDAG_def)

lemma try_peers_result:
  assumes "link_parse env (content_cid up) = Inr rootCID"
  shows "\<exists>s'. try_peers env up peers s = Inr s'
     \<and> map fst (tried s') = map fst (tried s) @ first_passing (peer_passes env rootCID) peers
     \<and> map (\<lambda>t. snd t = None) (tried s')
         = map (\<lambda>t. snd t = None) (tried s)
           @ map (peer_passes env rootCID) (first_passing (peer_passes env rootCID) peers)
     \<and> enqueued s' = enqueued s
         @ (if \<exists>p \<in> set peers. peer_passes env rootCID p then [(destPath up, up)] else [])"
proof (induction peers arbitrary: s)
  case Nil
  show ?case by (simp add: first_passing_def)
next
  case (Cons peer rest)
  obtain bs e where ex: "export_dag env peer rootCID = (bs, e)" by (cases "export_dag env peer rootCID")
  show ?case
  proof (cases e)
    case (Some err)
    with ex have np: "\<not> peer_passes env rootCID peer" by (simp add: peer_passes_def)
    let ?s1 = "s\<lparr>disk := (disk s)(destPath up := Inr \<lparr>roots = [rootCID], blocks = bs\<rparr>),
                    tried := tried s @ [(peer, Some err)]\<rparr>"
    from Cons.IH[of ?s1] obtain s' where
      "try_peers env up rest ?s1 = Inr s'"
      "map fst (tried s') = map fst (tried ?s1) @ first_passing (peer_passes env rootCID) rest"
      "map (\<lambda>t. snd t = None) (tried s')
         = map (\<lambda>t. snd t = None) (tried ?s1)
           @ map (peer_passes env rootCID) (first_passing (peer_passes env rootCID) rest)"
      "enqueued s' = enqueued ?s1
         @ (if \<exists>p \<in> set rest. peer_passes env rootCID p then [(destPath up, up)] else [])"
      by blast
    with assms ex Some np show ?thesis by (simp add: first_passing_def)
  next
    case None
    let ?s1 = "s\<lparr>disk := (disk s)(destPath up := Inr \<lparr>roots = [rootCID], blocks = bs\<rparr>)\<rparr>"
    have v: "verifyDAG (indexer env) (disk ?s1) rootCID (destPath up)
        = verifyDAG (indexer env) (\<lambda>q. Inr \<lparr>roots = [rootCID], blocks = bs\<rparr>) rootCID []"
      by (simp add: verifyDAG_written)
    show ?thesis
    proof (cases "verifyDAG (indexer env) (\<lambda>q. Inr \<lparr>roots = [rootCID], blocks = bs\<rparr>) rootCID []")
      case (Inl err)
      with ex None have np: "\<not> peer_passes env rootCID peer" by (simp add: peer_passes_def)
      let ?s2 = "?s1\<lparr>tried := tried ?s1 @ [(peer, Some err)]\<rparr>"
      from Cons.IH[of ?s2] obtain s' where
        "try_peers env up rest ?s2 = Inr s'"
        "map fst (tried s') = map fst (tried ?s2) @ first_passing (peer_passes env rootCID) rest"
        "map (\<lambda>t. snd t = None) (tried s')
           = map (\<lambda>t. snd t = None) (tried ?s2)
             @ map (peer_passes env rootCID) (first_passing (peer_passes env rootCID) rest)"
        "enqueued s' = enqueued ?s2
           @ (if \<exists>p \<in> set rest. peer_passes env rootCID p then [(destPath up, up)] else [])"
        by blast
      with assms ex None np Inl v show ?thesis by (simp add: first_passing_def Let_def)
    next
      case (Inr u)
      with ex None have p: "peer_passes env rootCID peer" by (simp add: peer_passes_def)
      with assms ex None Inr v show ?thesis by (simp add: first_passing_def Let_def)
    qed
  qed
qed

section \<open>The claims about the checkpointed scan\<close>



text \<open>
  C10. The page is limited by a number of rows, not by a range of ids, while the cursor
  moves on by the page size. In the small database fewer than \<open>PAGE_SIZE\<close> rows have an
  id in the range of the first page, so the upload with the id 15000 is returned in the
  page fetched at the cursor 0 and again in the page fetched at the cursor
  \<open>PAGE_SIZE\<close>: the run handles it in two iterations, and the checkpoint it leaves counts
  three DAGs for the two uploads of the table.
\<close>

theorem overlapping_pages_count_twice:
  "main ex_db {} ex_world
     = Some (Completed,
         \<lparr>files = saveState \<lparr>currentID = 20000, state_size = 50, state_count = 3\<rparr>
                    (saveState \<lparr>currentID = 10000, state_size = 30, state_count = 2\<rparr>
                       (files ex_world)),
          pages = [(0, [ex_upload1, ex_upload2]), (PAGE_SIZE, [ex_upload2])]\<rparr>)
   \<and> loadState (saveState \<lparr>currentID = 20000, state_size = 50, state_count = 3\<rparr>
                    (saveState \<lparr>currentID = 10000, state_size = 30, state_count = 2\<rparr>
                       (files ex_world)))
       = Inr \<lparr>currentID = 20000, state_size = 50, state_count = 3\<rparr>
   \<and> select_uploads_after ex_db 0 PAGE_SIZE = Inr [ex_upload1, ex_upload2]
   \<and> select_uploads_after ex_db PAGE_SIZE PAGE_SIZE = Inr [ex_upload2]
   \<and> 0 + PAGE_SIZE \<le> upload_id ex_upload2
   \<and> int (length (filter (\<lambda>u. 0 \<le> upload_id u \<and> upload_id u < 0 + PAGE_SIZE)
                     [ex_upload1, ex_upload2])) < PAGE_SIZE"
  using ex_fetch(1,2)
  by (simp add: ex_main loadState_saveState PAGE_SIZE_def fetchUploadsAfter_def)
     (simp add: ex_upload1_def ex_upload2_def)





section \<open>The claim about the denylist filter\<close>

text \<open>
  C8, as stated, fails where it says that an identifier differing by one character is
  reported not blocked: a denylist that holds the anchors of two identifiers differing by
  one character reports both blocked.
\<close>

theorem one_character_change_counterexample:
  "anchor ''bafyA'' \<in> {anchor ''bafyA'', anchor ''bafyB''}
   \<and> differ_by_one ''bafyA'' ''bafyB''
   \<and> isDenyListed {anchor ''bafyA'', anchor ''bafyB''} ''bafyB''"
  by (simp add: isDenyListed_anchor differ_by_one_def)

text \<open>
  C8, amended. \<open>isDenyListed\<close> is a function of the set and the identifier: it is true
  exactly when the hexadecimal text of the SHA-256 hash of the identifier followed by a
  slash is in the set. So the identifier whose anchor is in the set is reported blocked,
  and an identifier whose own anchor is not in the set is reported not blocked. Against a
  set that holds the anchor of one identifier only, another identifier (one that differs
  by one character, too) is reported blocked exactly when the two SHA-256 hashes are
  equal.
\<close>

theorem isDenyListed_iff_anchor_member:
  "isDenyListed denylist cid = (hex (sha256 (bytes_of_string (cid @ ''/''))) \<in> denylist)
   \<and> isDenyListed denylist cid = (anchor cid \<in> denylist)
   \<and> isDenyListed (insert (anchor cid) denylist) cid
   \<and> isDenyListed (denylist - {anchor cid'}) cid' = False
   \<and> isDenyListed {anchor cid} cid'
       = (sha256 (bytes_of_string (cid' @ ''/'')) = sha256 (bytes_of_string (cid @ ''/'')))"
proof -
  have "(anchor cid' = anchor cid)
       = (sha256 (bytes_of_string (cid' @ ''/'')) = sha256 (bytes_of_string (cid @ ''/'')))"
    unfolding anchor_def by (auto dest: hex_inj)
  then show ?thesis by (simp add: isDenyListed_anchor) (simp add: anchor_def)
qed

section \<open>The claims about export and verification\<close>

text \<open>
  C2. \<open>verifyDAG\<close> returns normally only for a CAR file that was read and indexed
  without error, whose first declared root is the expected root and whose report is
  Complete. When the blocks were indexed and the declared root is another one (or none),
  it throws the error of the indexing stage, with the root mismatch as its cause,
  whatever the report of the structure would be: the report is not looked at. When the
  root matches and the report is Partial or Unknown, it throws the error of the
  verification stage.
\<close>

theorem verifyDAG_accepts_only_matching_complete:
  "(verifyDAG lib cars rootCID p = Inr ()) =
     (\<exists>c ix. cars p = Inr c \<and> index_blocks lib (new_index lib) (blocks c) = Inr ix
        \<and> first_root c = Some rootCID \<and> report_structure lib ix = Complete)
   \<and> (\<forall>c ix. cars p = Inr c \<and> index_blocks lib (new_index lib) (blocks c) = Inr ix
         \<and> first_root c \<noteq> Some rootCID \<longrightarrow>
         (\<exists>msg. verifyDAG lib cars rootCID p =
            Inl (Error (''failed indexing: root CID mismatch '' @ msg) None
                   (Some (Error (''root CID mismatch '' @ msg) None None))))
         \<and> (\<forall>f. verifyDAG (lib\<lparr>report_structure := f\<rparr>) cars rootCID p
                  = verifyDAG lib cars rootCID p))
   \<and> (\<forall>c ix. cars p = Inr c \<and> index_blocks lib (new_index lib) (blocks c) = Inr ix
         \<and> first_root c = Some rootCID \<and> report_structure lib ix \<noteq> Complete \<longrightarrow>
         verifyDAG lib cars rootCID p =
            Inl (Error (''failed verification: non-complete DAG: ''
                          @ structure_name (report_structure lib ix)) None
                   (Some (Error (''non-complete DAG: ''
                          @ structure_name (report_structure lib ix)) None None))))"
proof (intro conjI allI impI)
  show "(verifyDAG lib cars rootCID p = Inr ()) =
     (\<exists>c ix. cars p = Inr c \<and> index_blocks lib (new_index lib) (blocks c) = Inr ix
        \<and> first_root c = Some rootCID \<and> report_structure lib ix = Complete)"
    by (rule verifyDAG_Inr_iff)
next
  fix c ix
  assume a: "cars p = Inr c \<and> index_blocks lib (new_index lib) (blocks c) = Inr ix
         \<and> first_root c \<noteq> Some rootCID"
  then show "\<exists>msg. verifyDAG lib cars rootCID p =
            Inl (Error (''failed indexing: root CID mismatch '' @ msg) None
                   (Some (Error (''root CID mismatch '' @ msg) None None)))"
    using verifyDAG_mismatch[of cars p c lib ix rootCID] by auto
  fix f
  from a have "index_blocks (lib\<lparr>report_structure := f\<rparr>) (new_index lib) (blocks c) = Inr ix"
    by (simp add: index_blocks_report_update)
  with a show "verifyDAG (lib\<lparr>report_structure := f\<rparr>) cars rootCID p
                  = verifyDAG lib cars rootCID p"
    by (simp add: verifyDAG_def)
next
  fix c ix
  assume "cars p = Inr c \<and> index_blocks lib (new_index lib) (blocks c) = Inr ix
         \<and> first_root c = Some rootCID \<and> report_structure lib ix \<noteq> Complete"
  then show "verifyDAG lib cars rootCID p =
            Inl (Error (''failed verification: non-complete DAG: ''
                          @ structure_name (report_structure lib ix)) None
                   (Some (Error (''non-complete DAG: ''
                          @ structure_name (report_structure lib ix)) None None)))"
    using verifyDAG_incomplete[of cars p c lib ix rootCID] by simp
qed

theorem verifyDAG_accepts_only_matching_complete_witness:
  "verifyDAG ex_indexer ex_cars ''root'' ''complete.car'' = Inr ()
   \<and> (\<exists>msg. verifyDAG ex_indexer ex_cars ''other'' ''complete.car'' =
          Inl (Error (''failed indexing: root CID mismatch '' @ msg) None
                 (Some (Error (''root CID mismatch '' @ msg) None None))))
   \<and> verifyDAG ex_indexer ex_cars ''root'' ''partial.car'' =
          Inl (Error ''failed verification: non-complete DAG: Partial'' None
                 (Some (Error ''non-complete DAG: Partial'' None None)))"
proof -
  let ?full = "\<lparr>roots = [''root''], blocks = [ex_block ''root'', ex_block ''kid1'', ex_block ''kid2'']\<rparr>"
  let ?part = "\<lparr>roots = [''root''], blocks = [ex_block ''root'', ex_block ''kid1'']\<rparr>"
  have c1: "ex_cars ''complete.car'' = Inr ?full" by (simp add: ex_cars_def)
  have c2: "ex_cars ''partial.car'' = Inr ?part" by (simp add: ex_cars_def)
  have r: "first_root ?full = Some ''root''" "first_root ?part = Some ''root''"
    by (simp_all add: first_root_def)
  have a: "verifyDAG ex_indexer ex_cars ''root'' ''complete.car'' = Inr ()"
    using verifyDAG_accepts_only_matching_complete[of ex_indexer ex_cars "''root''" "''complete.car''"]
      c1 r ex_index_complete ex_report by auto
  have b: "\<exists>msg. verifyDAG ex_indexer ex_cars ''other'' ''complete.car'' =
          Inl (Error (''failed indexing: root CID mismatch '' @ msg) None
                 (Some (Error (''root CID mismatch '' @ msg) None None)))"
    using verifyDAG_accepts_only_matching_complete[of ex_indexer ex_cars "''other''" "''complete.car''"]
      c1 r ex_index_complete by auto
  have c: "verifyDAG ex_indexer ex_cars ''root'' ''partial.car'' =
          Inl (Error ''failed verification: non-complete DAG: Partial'' None
                 (Some (Error ''non-complete DAG: Partial'' None None)))"
    using verifyDAG_accepts_only_matching_complete[of ex_indexer ex_cars "''root''" "''partial.car''"]
      c2 r ex_index_partial ex_report by auto
  from a b c show ?thesis by blast
qed

end
